theory Spec2Isabelle
  imports Complex_Main "HOL-Library.Sublist"
begin

section \<open>Paint property binders (src/mbgl/style/paint_property_binder.hpp)\<close>

text \<open>
  The header defines three binder classes, \<^verbatim>\<open>ConstantPaintPropertyBinder\<close>,
  \<^verbatim>\<open>SourceFunctionPaintPropertyBinder\<close> and \<^verbatim>\<open>CompositeFunctionPaintPropertyBinder\<close>,
  the variant \<^verbatim>\<open>PaintPropertyBinder\<close> over them and the tuple \<^verbatim>\<open>PaintPropertyBinders\<close>.
  Each class is a record of its private members, each member function a HOL function
  on that record; a non-const member function returns the updated record.

  The template parameters are type variables: \<open>'f\<close> is \<^verbatim>\<open>GeometryTileFeature\<close>,
  \<open>'T\<close> the property's value type \<^verbatim>\<open>T\<close>, \<open>'i\<close> the composite function's
  \<^verbatim>\<open>InnerStops\<close>, \<open>'v\<close> the attribute's \<^verbatim>\<open>A::Value\<close>. The static member
  \<^verbatim>\<open>A::value\<close>, which converts a \<^verbatim>\<open>T\<close> to an attribute value, is the parameter
  \<open>A_value\<close> of the functions that call it.

  The three binder classes have members of the same names; the fields and functions of
  the constant, source-function and composite-function binder carry the suffix or prefix
  \<open>K\<close>/\<open>Constant\<close>, \<open>S\<close>/\<open>Source\<close> and \<open>C\<close>/\<open>Composite\<close>. The members named
  \<^verbatim>\<open>function\<close> and \<^verbatim>\<open>constant\<close> are \<open>function_S\<close>, \<open>function_C\<close> and
  \<open>constant_K\<close>.

  A C++ \<^verbatim>\<open>float\<close> is read as a real number: rounding, infinities and NaN are not
  part of this model. A \<^verbatim>\<open>std::size_t\<close> is a natural number; the only arithmetic on
  it, \<^verbatim>\<open>++i\<close> under the guard \<^verbatim>\<open>i < length\<close>, cannot wrap.
\<close>

type_synonym float = real

subsection \<open>Collaborators declared in other headers\<close>

text \<open>\<^verbatim>\<open>Range<T>\<close> (mbgl/util/range.hpp): the two public members \<^verbatim>\<open>min\<close> and \<^verbatim>\<open>max\<close>,
  here \<open>Range_min\<close> and \<open>Range_max\<close>.\<close>

datatype 'a Range = Range (Range_min: 'a) (Range_max: 'a)

text \<open>
  Modelled from the spec: \<^verbatim>\<open>SourceFunction<T>\<close> and its member \<^verbatim>\<open>evaluate\<close>
  (mbgl/style/function/source_function.hpp is not among the sources). Spec 4.2: the
  function is an expression over the feature's attributes, and evaluating it falls back
  to the default that the caller passes when the evaluation fails. The expression is a
  partial function of the feature, \<open>None\<close> being the failure.
\<close>

datatype ('f, 'T) SourceFunction = SourceFunction (expression: "'f \<Rightarrow> 'T option")

definition SourceFunction_evaluate :: "('f, 'T) SourceFunction \<Rightarrow> 'f \<Rightarrow> 'T \<Rightarrow> 'T" where
  "SourceFunction_evaluate fn feature finalDefaultValue =
     (case expression fn feature of
        Some v \<Rightarrow> v
      | None \<Rightarrow> finalDefaultValue)"

text \<open>
  \<^verbatim>\<open>Attributes::Vertex\<close> for a single attribute (mbgl/gl/attribute.hpp): a struct of one
  attribute value. \<^verbatim>\<open>gl::VertexVector<Vertex>\<close> (mbgl/gl/vertex_buffer.hpp) wraps a
  \<^verbatim>\<open>std::vector\<close>: it is a list, \<^verbatim>\<open>vertexSize()\<close> its length and
  \<^verbatim>\<open>emplace_back\<close> an append at the end.
\<close>

datatype 'v Vertex = Vertex (a1: 'v)

type_synonym 'v VertexVector = "'v Vertex list"

definition vertexSize :: "'v VertexVector \<Rightarrow> nat" where
  "vertexSize v = length v"

definition emplace_back :: "'v VertexVector \<Rightarrow> 'v Vertex \<Rightarrow> 'v VertexVector" where
  "emplace_back v x = v @ [x]"

text \<open>
  Modelled from the spec: the uploaded buffer that \<^verbatim>\<open>gl::Context::createVertexBuffer\<close>
  returns (mbgl/gl/context.hpp is not among the sources). Spec 3: an immutable copy of a
  vertex vector, held by the binder as a handle.
\<close>

datatype 'v VertexBuffer = VertexBuffer (uploaded: "'v VertexVector")

definition createVertexBuffer :: "'v VertexVector \<Rightarrow> 'v VertexBuffer" where
  "createVertexBuffer v = VertexBuffer v"

text \<open>
  \<^verbatim>\<open>CompositeFunction<T>\<close> (mbgl/style/function/composite_function.hpp) is not among
  the sources. The binder calls two of its member functions, \<^verbatim>\<open>coveringRanges(zoom)\<close>
  and \<^verbatim>\<open>evaluate(innerStopsRange, feature, defaultValue)\<close>; they are fields of the
  record, so that every statement below holds for whatever function supplies them.
  \<open>fn_base\<close> is the zoom-interpolation base that the function declares (spec 6).
\<close>

record ('f, 'T, 'i) CompositeFunction =
  fn_base :: float
  fn_coveringRanges :: "float \<Rightarrow> float Range \<times> 'i Range"
  fn_evaluate :: "'i Range \<Rightarrow> 'f \<Rightarrow> 'T \<Rightarrow> 'T Range"

text \<open>
  Modelled from the spec: \<^verbatim>\<open>PossiblyEvaluatedPropertyValue<T>\<close> with its members
  \<^verbatim>\<open>isConstant()\<close>, \<^verbatim>\<open>constant()\<close> and \<^verbatim>\<open>constantOr(t)\<close> (its header is not among
  the sources). Spec 3: a tagged union of a constant, a source function and a composite
  function; \<^verbatim>\<open>constant()\<close>, here \<open>constant_opt\<close>, is an optional, engaged for the
  first variant only.
\<close>

datatype ('f, 'T, 'i) PossiblyEvaluatedPropertyValue =
    Constant 'T
  | SourceFn "('f, 'T) SourceFunction"
  | CompositeFn "('f, 'T, 'i) CompositeFunction"

fun isConstant :: "('f, 'T, 'i) PossiblyEvaluatedPropertyValue \<Rightarrow> bool" where
  "isConstant (Constant c) = True"
| "isConstant (SourceFn f) = False"
| "isConstant (CompositeFn f) = False"

fun constant_opt :: "('f, 'T, 'i) PossiblyEvaluatedPropertyValue \<Rightarrow> 'T option" where
  "constant_opt (Constant c) = Some c"
| "constant_opt (SourceFn f) = None"
| "constant_opt (CompositeFn f) = None"

definition constantOr :: "('f, 'T, 'i) PossiblyEvaluatedPropertyValue \<Rightarrow> 'T \<Rightarrow> 'T" where
  "constantOr currentValue t = (case constant_opt currentValue of Some c \<Rightarrow> c | None \<Rightarrow> t)"

text \<open>
  Modelled from the spec: \<^verbatim>\<open>util::interpolationFactor(base, range, z)\<close>, the range
  being \<open>r\<close> here
  (mbgl/util/interpolate.hpp is not among the sources). Spec 4.3: the normalised position
  of \<open>z\<close> within the range, using an exponential base, base 1.0 giving linear
  interpolation. The spec does not say what a range of width zero gives; the model
  returns 0 there instead of dividing by zero.
\<close>

definition util_interpolationFactor :: "float \<Rightarrow> float Range \<Rightarrow> float \<Rightarrow> float" where
  "util_interpolationFactor base r z =
     (let zoomDiff = Range_max r - Range_min r;
          zoomProgress = z - Range_min r
      in if zoomDiff = 0 then 0
         else if base = 1 then zoomProgress / zoomDiff
         else (base powr zoomProgress - 1) / (base powr zoomDiff - 1))"

text \<open>
  \<^verbatim>\<open>Attribute::Binding\<close> (mbgl/gl/attribute.hpp) is a variant of a constant binding,
  which carries the value broadcast to every vertex, and a variable binding, which refers
  to a vertex buffer. \<^verbatim>\<open>Attributes::allVariableBindings(buffer).get<Attribute>()\<close>
  is the variable binding of the one attribute to that buffer.
\<close>

datatype 'v Binding = ConstantBinding 'v | VariableBinding "'v VertexBuffer"

definition allVariableBindings_get :: "'v VertexBuffer \<Rightarrow> 'v Binding" where
  "allVariableBindings_get buffer = VariableBinding buffer"

text \<open>
  Modelled from the spec: \<^verbatim>\<open>attributes::ZoomInterpolatedAttribute<A>::value(min, max)\<close>
  (mbgl/programs/attributes.hpp is not among the sources). Spec 4.3: both endpoints are
  packed into one attribute value; here the pair of the two values of \<^verbatim>\<open>A\<close>.
\<close>

definition ZoomInterpolatedAttribute_value :: "('T \<Rightarrow> 'v) \<Rightarrow> 'T \<Rightarrow> 'T \<Rightarrow> 'v \<times> 'v" where
  "ZoomInterpolatedAttribute_value A_value mn mx = (A_value mn, A_value mx)"

text \<open>
  Dereferencing a disengaged \<^verbatim>\<open>optional\<close> (\<^verbatim>\<open>*vertexBuffer\<close>,
  \<^verbatim>\<open>*currentValue.constant()\<close>) is undefined behaviour: it is the error of the model.
\<close>

datatype error = DisengagedOptional

definition deref :: "'a option \<Rightarrow> error + 'a" where
  "deref x = (case x of Some v \<Rightarrow> Inr v | None \<Rightarrow> Inl DisengagedOptional)"

subsection \<open>The population loop\<close>

text \<open>
  The loop \<^verbatim>\<open>for (std::size_t i = vertexVector.vertexSize(); i < length; ++i)
  vertexVector.emplace_back(vertex)\<close> of both populating binders. The vertex is built
  before the loop and passed in; \<open>len\<close> is the source's parameter \<^verbatim>\<open>length\<close>.
\<close>

function populate_loop :: "nat \<Rightarrow> nat \<Rightarrow> 'v Vertex \<Rightarrow> 'v VertexVector \<Rightarrow> 'v VertexVector" where
  "populate_loop i len vertex v =
     (if i < len then populate_loop (i + 1) len vertex (emplace_back v vertex) else v)"
  by pat_completeness auto
termination
  by (relation "measure (\<lambda>(i, len, vertex, v). len - i)") auto

declare populate_loop.simps [simp del]

subsection \<open>ConstantPaintPropertyBinder\<close>

record 'T ConstantPaintPropertyBinder =
  constant_K :: 'T

definition Constant_new :: "'T \<Rightarrow> 'T ConstantPaintPropertyBinder" where
  "Constant_new c = \<lparr>constant_K = c\<rparr>"

definition Constant_populateVertexVector ::
  "'T ConstantPaintPropertyBinder \<Rightarrow> 'f \<Rightarrow> nat \<Rightarrow> 'T ConstantPaintPropertyBinder" where
  "Constant_populateVertexVector b feature len = b"

definition Constant_upload :: "'T ConstantPaintPropertyBinder \<Rightarrow> 'T ConstantPaintPropertyBinder" where
  "Constant_upload b = b"

definition Constant_attributeBinding ::
  "('T \<Rightarrow> 'v) \<Rightarrow> 'T ConstantPaintPropertyBinder
   \<Rightarrow> ('f, 'T, 'i) PossiblyEvaluatedPropertyValue \<Rightarrow> 'v Binding" where
  "Constant_attributeBinding A_value b currentValue =
     ConstantBinding (A_value (constantOr currentValue (constant_K b)))"

definition Constant_interpolationFactor :: "'T ConstantPaintPropertyBinder \<Rightarrow> float \<Rightarrow> float" where
  "Constant_interpolationFactor b currentZoom = 0"

subsection \<open>SourceFunctionPaintPropertyBinder\<close>

record ('f, 'T, 'v) SourceFunctionPaintPropertyBinder =
  function_S :: "('f, 'T) SourceFunction"
  defaultValue_S :: 'T
  vertexVector_S :: "'v VertexVector"
  vertexBuffer_S :: "'v VertexBuffer option"

text \<open>The constructor stores the function and the default; the vector and the optional
  buffer are default-initialised (empty, disengaged).\<close>

definition Source_new ::
  "('f, 'T) SourceFunction \<Rightarrow> 'T \<Rightarrow> ('f, 'T, 'v) SourceFunctionPaintPropertyBinder" where
  "Source_new fn dv =
     \<lparr>function_S = fn, defaultValue_S = dv, vertexVector_S = [], vertexBuffer_S = None\<rparr>"

definition Source_populateVertexVector ::
  "('T \<Rightarrow> 'v) \<Rightarrow> ('f, 'T, 'v) SourceFunctionPaintPropertyBinder \<Rightarrow> 'f \<Rightarrow> nat
   \<Rightarrow> ('f, 'T, 'v) SourceFunctionPaintPropertyBinder" where
  "Source_populateVertexVector A_value b feature len =
     (let val = SourceFunction_evaluate (function_S b) feature (defaultValue_S b);
          value = A_value val
      in b\<lparr>vertexVector_S :=
             populate_loop (vertexSize (vertexVector_S b)) len (Vertex value) (vertexVector_S b)\<rparr>)"

text \<open>
  \<^verbatim>\<open>upload\<close> passes \<^verbatim>\<open>std::move(vertexVector)\<close> to the context. What the vector holds
  after the move is valid but not specified by this header, so it is the argument
  \<open>moved\<close>; no statement below reads the vector after an upload.
\<close>

definition Source_upload ::
  "('f, 'T, 'v) SourceFunctionPaintPropertyBinder \<Rightarrow> 'v VertexVector
   \<Rightarrow> ('f, 'T, 'v) SourceFunctionPaintPropertyBinder" where
  "Source_upload b moved =
     b\<lparr>vertexBuffer_S := Some (createVertexBuffer (vertexVector_S b)), vertexVector_S := moved\<rparr>"

definition Source_attributeBinding ::
  "('T \<Rightarrow> 'v) \<Rightarrow> ('f, 'T, 'v) SourceFunctionPaintPropertyBinder
   \<Rightarrow> ('f, 'T, 'i) PossiblyEvaluatedPropertyValue \<Rightarrow> error + 'v Binding" where
  "Source_attributeBinding A_value b currentValue =
     (if isConstant currentValue then
        (case deref (constant_opt currentValue) of
           Inl e \<Rightarrow> Inl e
         | Inr c \<Rightarrow> Inr (ConstantBinding (A_value c)))
      else
        (case deref (vertexBuffer_S b) of
           Inl e \<Rightarrow> Inl e
         | Inr buffer \<Rightarrow> Inr (allVariableBindings_get buffer)))"

definition Source_interpolationFactor ::
  "('f, 'T, 'v) SourceFunctionPaintPropertyBinder \<Rightarrow> float \<Rightarrow> float" where
  "Source_interpolationFactor b currentZoom = 0"

subsection \<open>CompositeFunctionPaintPropertyBinder\<close>

record ('f, 'T, 'i, 'v) CompositeFunctionPaintPropertyBinder =
  function_C :: "('f, 'T, 'i) CompositeFunction"
  defaultValue_C :: 'T
  coveringRanges_C :: "float Range \<times> 'i Range"
  vertexVector_C :: "('v \<times> 'v) VertexVector"
  vertexBuffer_C :: "('v \<times> 'v) VertexBuffer option"

text \<open>The constructor computes the covering ranges once, from the zoom it is given. In
  \<^verbatim>\<open>populateVertexVector\<close> the local \<^verbatim>\<open>range\<close> is \<open>rng\<close>, and \<^verbatim>\<open>std::get<0>\<close> and
  \<^verbatim>\<open>std::get<1>\<close> of the tuple are \<open>fst\<close> and \<open>snd\<close>.\<close>

definition Composite_new ::
  "('f, 'T, 'i) CompositeFunction \<Rightarrow> float \<Rightarrow> 'T
   \<Rightarrow> ('f, 'T, 'i, 'v) CompositeFunctionPaintPropertyBinder" where
  "Composite_new fn zoom dv =
     \<lparr>function_C = fn, defaultValue_C = dv, coveringRanges_C = fn_coveringRanges fn zoom,
      vertexVector_C = [], vertexBuffer_C = None\<rparr>"

definition Composite_populateVertexVector ::
  "('T \<Rightarrow> 'v) \<Rightarrow> ('f, 'T, 'i, 'v) CompositeFunctionPaintPropertyBinder \<Rightarrow> 'f \<Rightarrow> nat
   \<Rightarrow> ('f, 'T, 'i, 'v) CompositeFunctionPaintPropertyBinder" where
  "Composite_populateVertexVector A_value b feature len =
     (let rng = fn_evaluate (function_C b) (snd (coveringRanges_C b)) feature (defaultValue_C b);
          minMax = ZoomInterpolatedAttribute_value A_value (Range_min rng) (Range_max rng)
      in b\<lparr>vertexVector_C :=
             populate_loop (vertexSize (vertexVector_C b)) len (Vertex minMax) (vertexVector_C b)\<rparr>)"

definition Composite_upload ::
  "('f, 'T, 'i, 'v) CompositeFunctionPaintPropertyBinder \<Rightarrow> ('v \<times> 'v) VertexVector
   \<Rightarrow> ('f, 'T, 'i, 'v) CompositeFunctionPaintPropertyBinder" where
  "Composite_upload b moved =
     b\<lparr>vertexBuffer_C := Some (createVertexBuffer (vertexVector_C b)), vertexVector_C := moved\<rparr>"

definition Composite_attributeBinding ::
  "('T \<Rightarrow> 'v) \<Rightarrow> ('f, 'T, 'i, 'v) CompositeFunctionPaintPropertyBinder
   \<Rightarrow> ('f, 'T, 'i) PossiblyEvaluatedPropertyValue \<Rightarrow> error + ('v \<times> 'v) Binding" where
  "Composite_attributeBinding A_value b currentValue =
     (if isConstant currentValue then
        (case deref (constant_opt currentValue) of
           Inl e \<Rightarrow> Inl e
         | Inr val \<Rightarrow> Inr (ConstantBinding (ZoomInterpolatedAttribute_value A_value val val)))
      else
        (case deref (vertexBuffer_C b) of
           Inl e \<Rightarrow> Inl e
         | Inr buffer \<Rightarrow> Inr (allVariableBindings_get buffer)))"

definition Composite_interpolationFactor ::
  "('f, 'T, 'i, 'v) CompositeFunctionPaintPropertyBinder \<Rightarrow> float \<Rightarrow> float" where
  "Composite_interpolationFactor b currentZoom =
     util_interpolationFactor 1 (fst (coveringRanges_C b)) currentZoom"

subsection \<open>PaintPropertyBinder: the variant over the three binders\<close>

text \<open>
  The template parameter \<^verbatim>\<open>PaintProperty\<close> supplies \<^verbatim>\<open>PaintProperty::defaultValue()\<close>
  and \<^verbatim>\<open>PaintProperty::Attribute\<close>; the record holds the default and the attribute's
  \<^verbatim>\<open>value\<close> function. The class has a single member, a variant over the three binder
  classes, so the class is the datatype of that variant (a value of it is written
  \<open>bdr\<close>), and \<^verbatim>\<open>match\<close> on the variant is a case distinction.
\<close>

record ('T, 'v) PaintProperty =
  defaultValue :: 'T
  Attribute_value :: "'T \<Rightarrow> 'v"

datatype ('f, 'T, 'i, 'v) PaintPropertyBinder =
    ConstantBinder "'T ConstantPaintPropertyBinder"
  | SourceBinder "('f, 'T, 'v) SourceFunctionPaintPropertyBinder"
  | CompositeBinder "('f, 'T, 'i, 'v) CompositeFunctionPaintPropertyBinder"

text \<open>\<^verbatim>\<open>PaintPropertyBinder::AttributeBinding\<close>: a variant of the attribute's binding
  and the zoom-interpolated attribute's binding.\<close>

datatype 'v AttributeBinding =
    PlainBinding "'v Binding"
  | ZoomInterpolatedBinding "('v \<times> 'v) Binding"

definition PaintPropertyBinder_new ::
  "('T, 'v) PaintProperty \<Rightarrow> ('f, 'T, 'i) PossiblyEvaluatedPropertyValue \<Rightarrow> float
   \<Rightarrow> ('f, 'T, 'i, 'v) PaintPropertyBinder" where
  "PaintPropertyBinder_new P v zoom =
     (case v of
        Constant c \<Rightarrow> ConstantBinder (Constant_new c)
      | SourceFn fn \<Rightarrow> SourceBinder (Source_new fn (defaultValue P))
      | CompositeFn fn \<Rightarrow> CompositeBinder (Composite_new fn zoom (defaultValue P)))"

definition populateVertexVector ::
  "('T, 'v) PaintProperty \<Rightarrow> ('f, 'T, 'i, 'v) PaintPropertyBinder \<Rightarrow> 'f \<Rightarrow> nat
   \<Rightarrow> ('f, 'T, 'i, 'v) PaintPropertyBinder" where
  "populateVertexVector P bdr feature len =
     (case bdr of
        ConstantBinder b \<Rightarrow> ConstantBinder (Constant_populateVertexVector b feature len)
      | SourceBinder b \<Rightarrow>
          SourceBinder (Source_populateVertexVector (Attribute_value P) b feature len)
      | CompositeBinder b \<Rightarrow>
          CompositeBinder (Composite_populateVertexVector (Attribute_value P) b feature len))"

definition upload ::
  "('f, 'T, 'i, 'v) PaintPropertyBinder \<Rightarrow> 'v VertexVector \<times> ('v \<times> 'v) VertexVector
   \<Rightarrow> ('f, 'T, 'i, 'v) PaintPropertyBinder" where
  "upload bdr moved =
     (case bdr of
        ConstantBinder b \<Rightarrow> ConstantBinder (Constant_upload b)
      | SourceBinder b \<Rightarrow> SourceBinder (Source_upload b (fst moved))
      | CompositeBinder b \<Rightarrow> CompositeBinder (Composite_upload b (snd moved)))"

definition attributeBinding ::
  "('T, 'v) PaintProperty \<Rightarrow> ('f, 'T, 'i, 'v) PaintPropertyBinder
   \<Rightarrow> ('f, 'T, 'i) PossiblyEvaluatedPropertyValue \<Rightarrow> error + 'v AttributeBinding" where
  "attributeBinding P bdr currentValue =
     (case bdr of
        ConstantBinder b \<Rightarrow>
          Inr (PlainBinding (Constant_attributeBinding (Attribute_value P) b currentValue))
      | SourceBinder b \<Rightarrow>
          (case Source_attributeBinding (Attribute_value P) b currentValue of
             Inl e \<Rightarrow> Inl e
           | Inr r \<Rightarrow> Inr (PlainBinding r))
      | CompositeBinder b \<Rightarrow>
          (case Composite_attributeBinding (Attribute_value P) b currentValue of
             Inl e \<Rightarrow> Inl e
           | Inr r \<Rightarrow> Inr (ZoomInterpolatedBinding r)))"

definition interpolationUniformValue :: "('f, 'T, 'i, 'v) PaintPropertyBinder \<Rightarrow> float \<Rightarrow> float" where
  "interpolationUniformValue bdr currentZoom =
     (case bdr of
        ConstantBinder b \<Rightarrow> Constant_interpolationFactor b currentZoom
      | SourceBinder b \<Rightarrow> Source_interpolationFactor b currentZoom
      | CompositeBinder b \<Rightarrow> Composite_interpolationFactor b currentZoom)"

subsection \<open>PaintPropertyBinders: one binder per paint property\<close>

text \<open>
  The type list \<^verbatim>\<open>Ps...\<close> is a list of paint properties and the indexed tuple
  \<^verbatim>\<open>binders\<close> a list of binders in the same order. The pack expansions visit the
  properties from left to right. In C++ the tuple and the evaluated properties have one
  entry per property by construction; the recursions below stop at the shortest list.
  All properties of one list share the type variables here.
\<close>

fun populateVertexVectors ::
  "('T, 'v) PaintProperty list \<Rightarrow> ('f, 'T, 'i, 'v) PaintPropertyBinder list \<Rightarrow> 'f \<Rightarrow> nat
   \<Rightarrow> ('f, 'T, 'i, 'v) PaintPropertyBinder list" where
  "populateVertexVectors (P # Ps) (b # binders) feature len =
     populateVertexVector P b feature len # populateVertexVectors Ps binders feature len"
| "populateVertexVectors Ps binders feature len = []"

fun attributeBindings ::
  "('T, 'v) PaintProperty list \<Rightarrow> ('f, 'T, 'i, 'v) PaintPropertyBinder list
   \<Rightarrow> ('f, 'T, 'i) PossiblyEvaluatedPropertyValue list \<Rightarrow> error + 'v AttributeBinding list" where
  "attributeBindings (P # Ps) (b # binders) (v # currentProperties) =
     (case attributeBinding P b v of
        Inl e \<Rightarrow> Inl e
      | Inr r \<Rightarrow>
          (case attributeBindings Ps binders currentProperties of
             Inl e \<Rightarrow> Inl e
           | Inr rs \<Rightarrow> Inr (r # rs)))"
| "attributeBindings Ps binders currentProperties = Inr []"

fun uniformValues :: "('f, 'T, 'i, 'v) PaintPropertyBinder list \<Rightarrow> float \<Rightarrow> float list" where
  "uniformValues [] currentZoom = []"
| "uniformValues (b # binders) currentZoom =
     interpolationUniformValue b currentZoom # uniformValues binders currentZoom"

fun PaintPropertyBinders_upload ::
  "('f, 'T, 'i, 'v) PaintPropertyBinder list \<Rightarrow> ('v VertexVector \<times> ('v \<times> 'v) VertexVector) list
   \<Rightarrow> ('f, 'T, 'i, 'v) PaintPropertyBinder list" where
  "PaintPropertyBinders_upload (b # binders) (m # moved) =
     upload b m # PaintPropertyBinders_upload binders moved"
| "PaintPropertyBinders_upload binders moved = []"

subsection \<open>Member function calls on a PaintPropertyBinders object\<close>

text \<open>
  A call of a public member function, with its arguments, and what it returns. A call
  takes the object's state (the list of binders) to the returned value and the state
  after the call: \<^verbatim>\<open>populateVertexVectors\<close> and \<^verbatim>\<open>upload\<close> return nothing and
  change the state; \<^verbatim>\<open>attributeBindings\<close> and \<^verbatim>\<open>uniformValues\<close> are declared
  \<^verbatim>\<open>const\<close>, as are the members of the three binders they reach, and hand the state
  back. A call that dereferences a disengaged optional is the error, and a sequence of
  calls stops there.
\<close>

datatype ('f, 'T, 'i, 'v) Call =
    Call_populateVertexVectors 'f nat
  | Call_upload "('v VertexVector \<times> ('v \<times> 'v) VertexVector) list"
  | Call_attributeBindings "('f, 'T, 'i) PossiblyEvaluatedPropertyValue list"
  | Call_uniformValues float

datatype 'v Returned =
    Returned_void
  | Returned_bindings "'v AttributeBinding list"
  | Returned_uniforms "float list"

fun is_const_call :: "('f, 'T, 'i, 'v) Call \<Rightarrow> bool" where
  "is_const_call (Call_populateVertexVectors feature len) = False"
| "is_const_call (Call_upload moved) = False"
| "is_const_call (Call_attributeBindings currentProperties) = True"
| "is_const_call (Call_uniformValues currentZoom) = True"

fun call ::
  "('T, 'v) PaintProperty list \<Rightarrow> ('f, 'T, 'i, 'v) Call \<Rightarrow> ('f, 'T, 'i, 'v) PaintPropertyBinder list
   \<Rightarrow> error + ('v Returned \<times> ('f, 'T, 'i, 'v) PaintPropertyBinder list)" where
  "call Ps (Call_populateVertexVectors feature len) binders =
     Inr (Returned_void, populateVertexVectors Ps binders feature len)"
| "call Ps (Call_upload moved) binders =
     Inr (Returned_void, PaintPropertyBinders_upload binders moved)"
| "call Ps (Call_attributeBindings currentProperties) binders =
     (case attributeBindings Ps binders currentProperties of
        Inl e \<Rightarrow> Inl e
      | Inr r \<Rightarrow> Inr (Returned_bindings r, binders))"
| "call Ps (Call_uniformValues currentZoom) binders =
     Inr (Returned_uniforms (uniformValues binders currentZoom), binders)"

fun calls ::
  "('T, 'v) PaintProperty list \<Rightarrow> ('f, 'T, 'i, 'v) Call list
   \<Rightarrow> ('f, 'T, 'i, 'v) PaintPropertyBinder list
   \<Rightarrow> error + ('v Returned list \<times> ('f, 'T, 'i, 'v) PaintPropertyBinder list)" where
  "calls Ps [] binders = Inr ([], binders)"
| "calls Ps (c # cs) binders =
     (case call Ps c binders of
        Inl e \<Rightarrow> Inl e
      | Inr (r, binders') \<Rightarrow>
          (case calls Ps cs binders' of
             Inl e \<Rightarrow> Inl e
           | Inr (rs, binders'') \<Rightarrow> Inr (r # rs, binders'')))"

section \<open>Properties\<close>

subsection \<open>Auxiliary lemmas\<close>

lemma populate_loop_replicate:
  "populate_loop i len vertex v = v @ replicate (len - i) vertex"
proof (induction i len vertex v rule: populate_loop.induct)
  case (1 i len vertex v)
  show ?case
  proof (cases "i < len")
    case True
    then have "len - i = Suc (len - (i + 1))" by simp
    with True "1" show ?thesis
      by (subst populate_loop.simps) (simp add: emplace_back_def replicate_app_Cons_same)
  next
    case False
    then show ?thesis by (subst populate_loop.simps) simp
  qed
qed

lemma Source_populate_vertexVector:
  "vertexVector_S (Source_populateVertexVector A_value b feature len) =
     vertexVector_S b @
     replicate (len - length (vertexVector_S b))
       (Vertex (A_value (SourceFunction_evaluate (function_S b) feature (defaultValue_S b))))"
  by (simp add: Source_populateVertexVector_def Let_def populate_loop_replicate vertexSize_def)

lemma Source_populate_frame [simp]:
  "function_S (Source_populateVertexVector A_value b feature len) = function_S b"
  "defaultValue_S (Source_populateVertexVector A_value b feature len) = defaultValue_S b"
  "vertexBuffer_S (Source_populateVertexVector A_value b feature len) = vertexBuffer_S b"
  by (simp_all add: Source_populateVertexVector_def Let_def)

lemma Composite_populate_frame [simp]:
  "function_C (Composite_populateVertexVector A_value b feature len) = function_C b"
  "defaultValue_C (Composite_populateVertexVector A_value b feature len) = defaultValue_C b"
  "coveringRanges_C (Composite_populateVertexVector A_value b feature len) = coveringRanges_C b"
  "vertexBuffer_C (Composite_populateVertexVector A_value b feature len) = vertexBuffer_C b"
  by (simp_all add: Composite_populateVertexVector_def Let_def)

lemma Composite_populate_vertexVector:
  "vertexVector_C (Composite_populateVertexVector A_value b feature len) =
     vertexVector_C b @
     replicate (len - length (vertexVector_C b))
       (Vertex (ZoomInterpolatedAttribute_value A_value
          (Range_min (fn_evaluate (function_C b) (snd (coveringRanges_C b)) feature (defaultValue_C b)))
          (Range_max (fn_evaluate (function_C b) (snd (coveringRanges_C b)) feature (defaultValue_C b)))))"
  by (simp add: Composite_populateVertexVector_def Let_def populate_loop_replicate vertexSize_def)

lemma Composite_interpolationFactor_linear:
  "fst (coveringRanges_C b) = Range lo hi \<Longrightarrow>
   Composite_interpolationFactor b z = (if hi - lo = 0 then 0 else (z - lo) / (hi - lo))"
  by (simp add: Composite_interpolationFactor_def util_interpolationFactor_def Let_def)

lemma Source_populate_unchanged:
  "len \<le> vertexSize (vertexVector_S b) \<Longrightarrow> Source_populateVertexVector A_value b feature len = b"
  by (simp add: Source_populateVertexVector_def Let_def populate_loop_replicate vertexSize_def)

lemma Composite_populate_unchanged:
  "len \<le> vertexSize (vertexVector_C b) \<Longrightarrow> Composite_populateVertexVector A_value b feature len = b"
  by (simp add: Composite_populateVertexVector_def Let_def populate_loop_replicate vertexSize_def)

lemma populate_calls_keep:
  "(case (bdr, foldl (\<lambda>b (feature, len). populateVertexVector P b feature len) bdr cs) of
      (ConstantBinder a, ConstantBinder b) \<Rightarrow> b = a
    | (SourceBinder a, SourceBinder b) \<Rightarrow> prefix (vertexVector_S a) (vertexVector_S b)
    | (CompositeBinder a, CompositeBinder b) \<Rightarrow> prefix (vertexVector_C a) (vertexVector_C b)
    | _ \<Rightarrow> False)"
proof (induction cs arbitrary: bdr)
  case Nil
  show ?case by (cases bdr) simp_all
next
  case (Cons c cs)
  obtain feature len where c: "c = (feature, len)" by (cases c)
  show ?case
  proof (cases bdr)
    case (ConstantBinder a)
    with Cons.IH [of bdr] c show ?thesis
      by (simp add: populateVertexVector_def Constant_populateVertexVector_def)
  next
    case (SourceBinder a)
    with Cons.IH [of "populateVertexVector P bdr feature len"] c show ?thesis
      by (auto simp add: populateVertexVector_def Source_populate_vertexVector
          split: PaintPropertyBinder.splits dest: append_prefixD)
  next
    case (CompositeBinder a)
    with Cons.IH [of "populateVertexVector P bdr feature len"] c show ?thesis
      by (auto simp add: populateVertexVector_def Composite_populate_vertexVector
          split: PaintPropertyBinder.splits dest: append_prefixD)
  qed
qed

lemma const_call_state:
  "is_const_call c \<Longrightarrow> call Ps c binders = Inr (r, binders') \<Longrightarrow> binders' = binders"
  by (cases c) (auto split: sum.splits)

lemma const_calls_state:
  "list_all is_const_call cs \<Longrightarrow> calls Ps cs binders = Inr (rs, binders') \<Longrightarrow>
   binders' = binders \<and> map (\<lambda>c. call Ps c binders) cs = map (\<lambda>r. Inr (r, binders)) rs"
proof (induction cs arbitrary: rs)
  case Nil
  then show ?case by simp
next
  case (Cons c cs)
  from Cons.prems(2) obtain r b1 rs1 where
    c: "call Ps c binders = Inr (r, b1)" and cs: "calls Ps cs b1 = Inr (rs1, binders')"
    and rs: "rs = r # rs1"
    by (auto split: sum.splits prod.splits)
  from Cons.prems(1) c have b1: "b1 = binders" by (auto dest: const_call_state)
  with Cons.IH [of rs1] Cons.prems(1) cs c rs show ?case by simp
qed

lemma const_calls_dropped:
  "calls Ps cs binders = Inr (rs, binders') \<Longrightarrow>
   \<exists>rs'. calls Ps (filter (\<lambda>c. \<not> is_const_call c) cs) binders = Inr (rs', binders')"
proof (induction cs arbitrary: binders rs)
  case Nil
  then show ?case by simp
next
  case (Cons c cs)
  from Cons.prems obtain r b1 rs1 where
    c: "call Ps c binders = Inr (r, b1)" and cs: "calls Ps cs b1 = Inr (rs1, binders')"
    by (auto split: sum.splits prod.splits)
  from Cons.IH [OF cs] obtain rs' where
    rs': "calls Ps (filter (\<lambda>c. \<not> is_const_call c) cs) b1 = Inr (rs', binders')" by blast
  show ?case
  proof (cases "is_const_call c")
    case True
    with c have "b1 = binders" by (auto dest: const_call_state)
    with True rs' show ?thesis by auto
  next
    case False
    with c rs' show ?thesis by simp
  qed
qed

subsection \<open>The interpolation factor of the composite-function binder\<close>

text \<open>
  Claim C1, as amended. The claim says that \<^verbatim>\<open>interpolationFactor(currentZoom)\<close> uses
  the zoom-interpolation base that the function declares. The header passes the literal
  \<^verbatim>\<open>1.0f\<close> as the base, so what holds is: \<^verbatim>\<open>interpolationFactor(currentZoom)\<close> is
  the linear position of \<open>currentZoom\<close> within the zoom range fixed at construction
  (0 for a range of width zero), it is the same whatever base the function declares,
  and for a binder built at \<open>zoom\<close> the range is the one that the function's
  \<^verbatim>\<open>coveringRanges(zoom)\<close> gave.
\<close>

theorem C1_interpolationFactor_base_fixed_to_one:
  "Composite_interpolationFactor b currentZoom =
     (if Range_max (fst (coveringRanges_C b)) - Range_min (fst (coveringRanges_C b)) = 0 then 0
      else (currentZoom - Range_min (fst (coveringRanges_C b))) /
           (Range_max (fst (coveringRanges_C b)) - Range_min (fst (coveringRanges_C b))))
   \<and> Composite_interpolationFactor (b\<lparr>function_C := (function_C b)\<lparr>fn_base := base'\<rparr>\<rparr>) currentZoom =
       Composite_interpolationFactor b currentZoom
   \<and> Composite_interpolationFactor
         (Composite_new fn zoom dv :: ('f, 'T, 'i, 'v) CompositeFunctionPaintPropertyBinder) currentZoom =
       util_interpolationFactor 1 (fst (fn_coveringRanges fn zoom)) currentZoom"
  by (simp add: Composite_interpolationFactor_def util_interpolationFactor_def Let_def
      Composite_new_def)

text \<open>
  The claim as stated fails for a function that declares base 2 over the zoom range
  [0, 2]: at zoom 1 the binder returns the linear 1/2, where the exponential position
  with base 2 is (2 - 1) / (4 - 1) = 1/3.
\<close>

theorem C1_declared_base_ignored_counterexample:
  "Composite_interpolationFactor
     (Composite_new
        \<lparr>fn_base = 2,
         fn_coveringRanges = (\<lambda>zoom. (Range 0 2, Range () ())),
         fn_evaluate = (\<lambda>stops (feature::unit) (d::int). Range d d)\<rparr>
        1 0 :: (unit, int, unit, int) CompositeFunctionPaintPropertyBinder) 1 = 1 / 2
   \<and> util_interpolationFactor 2 (Range 0 2) 1 = 1 / 3"
  by (simp add: Composite_interpolationFactor_def util_interpolationFactor_def Let_def
      Composite_new_def)

text \<open>
  Claim C4, as amended. The claim speaks of every composite-function binder, and a binder
  stores whatever range \<^verbatim>\<open>coveringRanges\<close> returned, also one whose two stops coincide;
  there the factor at the upper stop is not 1. What holds for every composite-function
  binder: \<^verbatim>\<open>interpolationFactor\<close> is monotonically non-decreasing in the zoom (for all
  zooms, so also within the range) when the lower stop is not above the upper stop, it
  is 0 at the lower stop, and it is 1 at the upper stop when the lower stop is strictly
  below the upper stop; with the zoom stops [10, 15] it is 0.5 at zoom 12.5. The base
  passed is always 1.0, so this does not depend on the base that the function declares.
\<close>

theorem C4_interpolationFactor_monotone_zero_one:
  "(Range_min (fst (coveringRanges_C b)) \<le> Range_max (fst (coveringRanges_C b)) \<longrightarrow>
      (\<forall>z1 z2. z1 \<le> z2 \<longrightarrow>
         Composite_interpolationFactor b z1 \<le> Composite_interpolationFactor b z2))
   \<and> Composite_interpolationFactor b (Range_min (fst (coveringRanges_C b))) = 0
   \<and> (Range_min (fst (coveringRanges_C b)) < Range_max (fst (coveringRanges_C b)) \<longrightarrow>
        Composite_interpolationFactor b (Range_max (fst (coveringRanges_C b))) = 1)
   \<and> (fst (coveringRanges_C b) = Range 10 15 \<longrightarrow> Composite_interpolationFactor b 12.5 = 0.5)"
proof -
  obtain lo hi where r: "fst (coveringRanges_C b) = Range lo hi"
    by (cases "fst (coveringRanges_C b)")
  have eq: "Composite_interpolationFactor b z = (if hi - lo = 0 then 0 else (z - lo) / (hi - lo))"
    for z
    using r by (rule Composite_interpolationFactor_linear)
  have mono: "Composite_interpolationFactor b z1 \<le> Composite_interpolationFactor b z2"
    if "lo \<le> hi" and "z1 \<le> z2" for z1 z2
  proof (cases "hi - lo = 0")
    case True
    then show ?thesis by (simp add: eq)
  next
    case False
    with that(1) have pos: "0 \<le> hi - lo" by simp
    from that(2) have "z1 - lo \<le> z2 - lo" by simp
    with pos have "(z1 - lo) / (hi - lo) \<le> (z2 - lo) / (hi - lo)"
      by (simp add: divide_right_mono)
    with False show ?thesis by (simp add: eq)
  qed
  have at_lo: "Composite_interpolationFactor b lo = 0" by (simp add: eq)
  have at_hi: "Composite_interpolationFactor b hi = 1" if "lo < hi"
    using that by (simp add: eq)
  have scen: "Composite_interpolationFactor b 12.5 = 0.5" if "fst (coveringRanges_C b) = Range 10 15"
    using that by (simp add: Composite_interpolationFactor_linear)
  from mono at_lo at_hi scen show ?thesis by (simp add: r)
qed

text \<open>
  The claim as stated fails for a binder built where both stops are 10: the factor at
  the upper stop 10 is 0, not 1.
\<close>

theorem C4_zero_width_range_counterexample:
  "Range_max (fst (coveringRanges_C
       (Composite_new
          \<lparr>fn_base = 1,
           fn_coveringRanges = (\<lambda>zoom. (Range 10 10, Range () ())),
           fn_evaluate = (\<lambda>stops (feature::unit) (d::int). Range d d)\<rparr>
          17 0 :: (unit, int, unit, int) CompositeFunctionPaintPropertyBinder))) = 10
   \<and> Composite_interpolationFactor
       (Composite_new
          \<lparr>fn_base = 1,
           fn_coveringRanges = (\<lambda>zoom. (Range 10 10, Range () ())),
           fn_evaluate = (\<lambda>stops (feature::unit) (d::int). Range d d)\<rparr>
          17 0 :: (unit, int, unit, int) CompositeFunctionPaintPropertyBinder) 10 \<noteq> 1"
  by (simp add: Composite_interpolationFactor_def util_interpolationFactor_def Let_def
      Composite_new_def)

text \<open>The amended statement on a binder with the zoom stops [10, 15].\<close>

theorem C4_interpolationFactor_witness:
  "(let b = Composite_new
              \<lparr>fn_base = 1,
               fn_coveringRanges = (\<lambda>zoom. (Range 10 15, Range () ())),
               fn_evaluate = (\<lambda>stops (feature::unit) (d::int). Range d d)\<rparr>
              12.5 0 :: (unit, int, unit, int) CompositeFunctionPaintPropertyBinder
    in fst (coveringRanges_C b) = Range 10 15
       \<and> Range_min (fst (coveringRanges_C b)) < Range_max (fst (coveringRanges_C b))
       \<and> Composite_interpolationFactor b 11 \<le> Composite_interpolationFactor b 14
       \<and> Composite_interpolationFactor b 10 = 0
       \<and> Composite_interpolationFactor b 15 = 1
       \<and> Composite_interpolationFactor b 12.5 = 0.5)"
  using C4_interpolationFactor_monotone_zero_one
    [of "Composite_new
              \<lparr>fn_base = 1,
               fn_coveringRanges = (\<lambda>zoom. (Range 10 15, Range () ())),
               fn_evaluate = (\<lambda>stops (feature::unit) (d::int). Range d d)\<rparr>
              12.5 0 :: (unit, int, unit, int) CompositeFunctionPaintPropertyBinder"]
  by (simp add: Composite_new_def)




subsection \<open>Population by the source-function binder\<close>

text \<open>
  Claim C2. \<^verbatim>\<open>SourceFunctionPaintPropertyBinder::populateVertexVector(feature, length)\<close>
  evaluates the function on the feature once, before the loop, taking the binder's
  default value when the evaluation fails. When \<open>length\<close> is at least the current vertex
  count, it appends exactly \<open>length - priorLength\<close> copies of the attribute value of that
  one result, and the vector then holds \<open>length\<close> vertices. The scenario: the function
  \<open>feature.size * 2\<close> with default 1, a feature of size 3 populated up to length 4 and
  then a feature of size 5 populated up to length 4 + 6 = 10, gives four vertices valued 6
  followed by six vertices valued 10.
\<close>

theorem C2_source_populate_once_and_replicate:
  "(vertexSize (vertexVector_S b) \<le> len \<longrightarrow>
      vertexVector_S (Source_populateVertexVector A_value b feature len) =
        vertexVector_S b @
        replicate (len - vertexSize (vertexVector_S b))
          (Vertex (A_value (case expression (function_S b) feature of
                              Some v \<Rightarrow> v
                            | None \<Rightarrow> defaultValue_S b)))
      \<and> vertexSize (vertexVector_S (Source_populateVertexVector A_value b feature len)) = len)
   \<and> vertexVector_S
         (Source_populateVertexVector (\<lambda>t. t)
            (Source_populateVertexVector (\<lambda>t. t)
               (Source_new (SourceFunction (\<lambda>size. Some (size * 2))) 1) 3 4) 5 10)
       = replicate 4 (Vertex (6::int)) @ replicate 6 (Vertex 10)"
  by (simp add: Source_populate_vertexVector Source_new_def SourceFunction_evaluate_def
      vertexSize_def)

text \<open>
  The general part at a concrete binder: one vertex is already there, the function fails
  on the feature (a negative size), and the default 1 is written twice to reach length 3.
\<close>

theorem C2_source_populate_witness:
  "vertexSize (vertexVector_S
       \<lparr>function_S = SourceFunction (\<lambda>size. if size < 0 then None else Some (size * 2)),
        defaultValue_S = (1::int), vertexVector_S = [Vertex (6::int)], vertexBuffer_S = None\<rparr>) \<le> 3
   \<and> vertexVector_S (Source_populateVertexVector (\<lambda>t. t)
       \<lparr>function_S = SourceFunction (\<lambda>size. if size < 0 then None else Some (size * 2)),
        defaultValue_S = (1::int), vertexVector_S = [Vertex (6::int)], vertexBuffer_S = None\<rparr>
       (- 1) 3) = [Vertex 6, Vertex 1, Vertex 1]"
  using C2_source_populate_once_and_replicate
    [of "\<lparr>function_S = SourceFunction (\<lambda>size. if size < 0 then None else Some (size * 2)),
        defaultValue_S = (1::int), vertexVector_S = [Vertex (6::int)], vertexBuffer_S = None\<rparr>"
        3 "\<lambda>t. t" "- 1"]
  by (simp add: vertexSize_def numeral_3_eq_3)

subsection \<open>Population by the composite-function binder\<close>

text \<open>
  Claim C3. \<^verbatim>\<open>CompositeFunctionPaintPropertyBinder::populateVertexVector(feature, length)\<close>
  evaluates the function once, at the inner stops of the covering ranges stored in the
  binder, which are those computed at construction and which population leaves as they
  are. The vertex it writes holds both endpoints of the resulting range, the minimum first,
  each as its own attribute value and not blended; no zoom enters the operation. While the
  vector is shorter than \<open>length\<close> the vertex is appended, so the vector ends with
  \<open>length\<close> vertices, or as it was when it already had that many.
\<close>

theorem C3_composite_populate_min_max:
  "vertexVector_C (Composite_populateVertexVector A_value b feature len) =
     (if vertexSize (vertexVector_C b) < len
      then vertexVector_C b @
           replicate (len - vertexSize (vertexVector_C b))
             (Vertex
               (A_value (Range_min (fn_evaluate (function_C b) (snd (coveringRanges_C b))
                                      feature (defaultValue_C b))),
                A_value (Range_max (fn_evaluate (function_C b) (snd (coveringRanges_C b))
                                      feature (defaultValue_C b)))))
      else vertexVector_C b)
   \<and> vertexSize (vertexVector_C (Composite_populateVertexVector A_value b feature len)) =
       max (vertexSize (vertexVector_C b)) len
   \<and> coveringRanges_C (Composite_populateVertexVector A_value b feature len) = coveringRanges_C b
   \<and> coveringRanges_C (Composite_new fn zoom dv :: ('f, 'T, 'i, 'v) CompositeFunctionPaintPropertyBinder)
       = fn_coveringRanges fn zoom"
  by (simp add: Composite_populate_vertexVector ZoomInterpolatedAttribute_value_def
      vertexSize_def Composite_new_def)

subsection \<open>Repeated population\<close>

text \<open>
  Claim C8. For every binder and every sequence of \<^verbatim>\<open>populateVertexVector\<close> calls (with
  non-decreasing lengths or not), the binder keeps its variant, the vertex vector after
  the calls starts with the vector before them, so it is no shorter and every vertex
  already written keeps its value; a constant binder stays as it is. A single call whose
  \<open>length\<close> does not exceed the current vertex count leaves the whole binder unchanged.
\<close>

theorem C8_population_never_shrinks:
  "(case (bdr, foldl (\<lambda>b (feature, len). populateVertexVector P b feature len) bdr cs) of
      (ConstantBinder a, ConstantBinder b) \<Rightarrow> b = a
    | (SourceBinder a, SourceBinder b) \<Rightarrow>
        prefix (vertexVector_S a) (vertexVector_S b)
        \<and> vertexSize (vertexVector_S a) \<le> vertexSize (vertexVector_S b)
        \<and> (\<forall>i < vertexSize (vertexVector_S a). vertexVector_S b ! i = vertexVector_S a ! i)
    | (CompositeBinder a, CompositeBinder b) \<Rightarrow>
        prefix (vertexVector_C a) (vertexVector_C b)
        \<and> vertexSize (vertexVector_C a) \<le> vertexSize (vertexVector_C b)
        \<and> (\<forall>i < vertexSize (vertexVector_C a). vertexVector_C b ! i = vertexVector_C a ! i)
    | _ \<Rightarrow> False)
   \<and> ((case bdr of
          ConstantBinder a \<Rightarrow> True
        | SourceBinder a \<Rightarrow> len \<le> vertexSize (vertexVector_S a)
        | CompositeBinder a \<Rightarrow> len \<le> vertexSize (vertexVector_C a)) \<longrightarrow>
       populateVertexVector P bdr feature len = bdr)"
proof
  from populate_calls_keep [of bdr P cs]
  show "case (bdr, foldl (\<lambda>b (feature, len). populateVertexVector P b feature len) bdr cs) of
      (ConstantBinder a, ConstantBinder b) \<Rightarrow> b = a
    | (SourceBinder a, SourceBinder b) \<Rightarrow>
        prefix (vertexVector_S a) (vertexVector_S b)
        \<and> vertexSize (vertexVector_S a) \<le> vertexSize (vertexVector_S b)
        \<and> (\<forall>i < vertexSize (vertexVector_S a). vertexVector_S b ! i = vertexVector_S a ! i)
    | (CompositeBinder a, CompositeBinder b) \<Rightarrow>
        prefix (vertexVector_C a) (vertexVector_C b)
        \<and> vertexSize (vertexVector_C a) \<le> vertexSize (vertexVector_C b)
        \<and> (\<forall>i < vertexSize (vertexVector_C a). vertexVector_C b ! i = vertexVector_C a ! i)
    | _ \<Rightarrow> False"
    by (auto simp add: vertexSize_def prefix_length_le prefix_def nth_append
        split: PaintPropertyBinder.splits)
next
  show "(case bdr of
          ConstantBinder a \<Rightarrow> True
        | SourceBinder a \<Rightarrow> len \<le> vertexSize (vertexVector_S a)
        | CompositeBinder a \<Rightarrow> len \<le> vertexSize (vertexVector_C a)) \<longrightarrow>
       populateVertexVector P bdr feature len = bdr"
    by (cases bdr)
       (simp_all add: populateVertexVector_def Constant_populateVertexVector_def
          Source_populate_unchanged Composite_populate_unchanged)
qed

text \<open>
  A source binder holding two vertices: a call with length 1 changes nothing, and calls
  with lengths 3 and 3 append one vertex in the first call and none in the second.
\<close>

theorem C8_population_witness:
  "(let P = \<lparr>defaultValue = (1::int), Attribute_value = (\<lambda>t. t)\<rparr>;
        bdr = SourceBinder
                \<lparr>function_S = SourceFunction (\<lambda>size. Some (size * 2)), defaultValue_S = 1,
                 vertexVector_S = [Vertex (6::int), Vertex 6], vertexBuffer_S = None\<rparr>
          :: (int, int, unit, int) PaintPropertyBinder
    in populateVertexVector P bdr 5 1 = bdr
       \<and> populateVertexVector P (populateVertexVector P bdr 5 3) 4 3 =
           SourceBinder
                \<lparr>function_S = SourceFunction (\<lambda>size. Some (size * 2)), defaultValue_S = 1,
                 vertexVector_S = [Vertex 6, Vertex 6, Vertex 10], vertexBuffer_S = None\<rparr>)"
  using C8_population_never_shrinks
    [of "SourceBinder
                \<lparr>function_S = SourceFunction (\<lambda>size. Some (size * 2)), defaultValue_S = 1,
                 vertexVector_S = [Vertex (6::int), Vertex 6], vertexBuffer_S = None\<rparr>
          :: (int, int, unit, int) PaintPropertyBinder"
        "\<lparr>defaultValue = (1::int), Attribute_value = (\<lambda>t. t)\<rparr>" "[(5, 3), (4, 3)]" 1 5]
  by (simp add: Let_def vertexSize_def populateVertexVector_def Source_populateVertexVector_def
      populate_loop_replicate SourceFunction_evaluate_def)

subsection \<open>Attribute bindings\<close>

text \<open>
  Claim C6. For a source-function binder and for a composite-function binder,
  \<^verbatim>\<open>attributeBinding(currentValue)\<close> decides per call on the value it is given: for a
  constant it returns the constant binding of that constant's attribute value (the
  composite binder of the pair of the value with itself), and for a value that is not
  constant it returns the variable binding to the uploaded buffer that the binder holds.
\<close>

theorem C6_attributeBinding_branches_on_live_value:
  "Source_attributeBinding A_value b (Constant c :: ('f, 'T, 'i) PossiblyEvaluatedPropertyValue) =
     Inr (ConstantBinding (A_value c))
   \<and> Composite_attributeBinding A_value
         (b' :: ('f, 'T, 'i, 'v) CompositeFunctionPaintPropertyBinder) (Constant c) =
       Inr (ConstantBinding (A_value c, A_value c))
   \<and> (\<not> isConstant currentValue \<and> vertexBuffer_S b = Some buffer \<longrightarrow>
        Source_attributeBinding A_value b currentValue = Inr (VariableBinding buffer))
   \<and> (\<not> isConstant currentValue \<and> vertexBuffer_C b' = Some buffer' \<longrightarrow>
        Composite_attributeBinding A_value b' currentValue = Inr (VariableBinding buffer'))"
  by (simp add: Source_attributeBinding_def Composite_attributeBinding_def deref_def
      allVariableBindings_get_def ZoomInterpolatedAttribute_value_def)

text \<open>
  Both binders populated with two vertices for a feature of size 3 and then uploaded:
  a source function as the current value is bound to the uploaded buffer, the constant 7
  is broadcast.
\<close>

theorem C6_attributeBinding_witness:
  "(let fn = SourceFunction (\<lambda>size. Some (size * 2));
        b = Source_upload (Source_populateVertexVector (\<lambda>t. t) (Source_new fn 1) 3 2) [];
        g = \<lparr>fn_base = 1,
             fn_coveringRanges = (\<lambda>zoom. (Range 10 15, Range () ())),
             fn_evaluate = (\<lambda>stops size d. Range (size * 2) (size * 3))\<rparr>;
        b' = Composite_upload
               (Composite_populateVertexVector (\<lambda>t. t) (Composite_new g 12 1) 3 2) []
    in \<not> isConstant (SourceFn fn :: (int, int, unit) PossiblyEvaluatedPropertyValue)
       \<and> vertexBuffer_S b = Some (VertexBuffer [Vertex 6, Vertex 6])
       \<and> Source_attributeBinding (\<lambda>t. t) b (SourceFn fn :: (int, int, unit) PossiblyEvaluatedPropertyValue) =
           Inr (VariableBinding (VertexBuffer [Vertex (6::int), Vertex 6]))
       \<and> Source_attributeBinding (\<lambda>t. t) b (Constant 7 :: (int, int, unit) PossiblyEvaluatedPropertyValue) =
           Inr (ConstantBinding 7)
       \<and> vertexBuffer_C b' = Some (VertexBuffer [Vertex (6, 9), Vertex (6, 9)])
       \<and> Composite_attributeBinding (\<lambda>t. t) b' (SourceFn fn) =
           Inr (VariableBinding (VertexBuffer [Vertex (6::int, 9::int), Vertex (6, 9)]))
       \<and> Composite_attributeBinding (\<lambda>t. t) b' (Constant 7 :: (int, int, unit) PossiblyEvaluatedPropertyValue) =
           Inr (ConstantBinding (7, 7)))"
  using C6_attributeBinding_branches_on_live_value
    [of "\<lambda>t. t"
        "Source_upload (Source_populateVertexVector (\<lambda>t. t)
           (Source_new (SourceFunction (\<lambda>size. Some (size * 2))) 1) 3 2) []"
        7
        "Composite_upload
           (Composite_populateVertexVector (\<lambda>t. t)
              (Composite_new \<lparr>fn_base = 1,
                 fn_coveringRanges = (\<lambda>zoom. (Range 10 15, Range () ())),
                 fn_evaluate = (\<lambda>stops size d. Range (size * 2) (size * 3))\<rparr> 12 1) 3 2) []"
        "SourceFn (SourceFunction (\<lambda>size. Some (size * 2))) :: (int, int, unit) PossiblyEvaluatedPropertyValue"
        "VertexBuffer [Vertex (6::int), Vertex 6]"
        "VertexBuffer [Vertex (6::int, 9::int), Vertex (6, 9)]"]
  by (simp add: Let_def Source_upload_def Composite_upload_def createVertexBuffer_def
      Source_populate_vertexVector Composite_populate_vertexVector Source_new_def
      Composite_new_def SourceFunction_evaluate_def ZoomInterpolatedAttribute_value_def
      numeral_2_eq_2)

text \<open>
  Claim C7. For a constant binder, \<^verbatim>\<open>attributeBinding(currentValue)\<close> is a constant
  binding: of the current value's constant when the current value is one, and of the
  constant stored at construction otherwise. It is never a variable binding to a buffer,
  population with any feature does not change it, and \<^verbatim>\<open>PaintPropertyBinder\<close> hands
  it on as it is.
\<close>

theorem C7_constant_binder_broadcasts:
  "Constant_attributeBinding A_value b currentValue =
     ConstantBinding (A_value (case currentValue of
                                 Constant c \<Rightarrow> c
                               | SourceFn fn \<Rightarrow> constant_K b
                               | CompositeFn fn \<Rightarrow> constant_K b))
   \<and> constant_K (Constant_new k) = k
   \<and> (\<forall>buffer. Constant_attributeBinding A_value b currentValue \<noteq> VariableBinding buffer)
   \<and> Constant_attributeBinding A_value (Constant_populateVertexVector b feature len) currentValue =
       Constant_attributeBinding A_value b currentValue
   \<and> attributeBinding P (ConstantBinder b) currentValue =
       Inr (PlainBinding (Constant_attributeBinding (Attribute_value P) b currentValue))"
  by (cases currentValue)
     (simp_all add: Constant_attributeBinding_def constantOr_def Constant_new_def
        Constant_populateVertexVector_def attributeBinding_def)

text \<open>
  Claim C9. For a source-function binder and for a composite-function binder, with a
  constant current value \<^verbatim>\<open>attributeBinding\<close> returns the constant binding whatever the
  optional buffer holds, engaged or not, and so also on a binder that has just been
  constructed, before any population or upload. Only a current value that is not constant
  reaches \<^verbatim>\<open>*vertexBuffer\<close>: with a disengaged buffer that call is the error.
\<close>

theorem C9_constant_branch_never_reads_buffer:
  "Source_attributeBinding A_value (b\<lparr>vertexBuffer_S := x\<rparr>)
       (Constant c :: ('f, 'T, 'i) PossiblyEvaluatedPropertyValue) =
     Inr (ConstantBinding (A_value c))
   \<and> Composite_attributeBinding A_value
         ((b' :: ('f, 'T, 'i, 'v) CompositeFunctionPaintPropertyBinder)\<lparr>vertexBuffer_C := x'\<rparr>)
         (Constant c) =
       Inr (ConstantBinding (A_value c, A_value c))
   \<and> Source_attributeBinding A_value
         (Source_new fn dv :: ('f, 'T, 'v) SourceFunctionPaintPropertyBinder)
         (Constant c :: ('f, 'T, 'i) PossiblyEvaluatedPropertyValue) =
       Inr (ConstantBinding (A_value c))
   \<and> Composite_attributeBinding A_value
         (Composite_new fn' zoom dv :: ('f, 'T, 'i, 'v) CompositeFunctionPaintPropertyBinder)
         (Constant c) =
       Inr (ConstantBinding (A_value c, A_value c))
   \<and> Source_attributeBinding A_value (b\<lparr>vertexBuffer_S := None\<rparr>)
         (SourceFn g :: ('f, 'T, 'i) PossiblyEvaluatedPropertyValue) =
       Inl DisengagedOptional
   \<and> Source_attributeBinding A_value (b\<lparr>vertexBuffer_S := None\<rparr>)
         (CompositeFn g' :: ('f, 'T, 'i) PossiblyEvaluatedPropertyValue) =
       Inl DisengagedOptional
   \<and> Composite_attributeBinding A_value (b'\<lparr>vertexBuffer_C := None\<rparr>) (SourceFn g) =
       Inl DisengagedOptional
   \<and> Composite_attributeBinding A_value (b'\<lparr>vertexBuffer_C := None\<rparr>) (CompositeFn g') =
       Inl DisengagedOptional"
  by (simp add: Source_attributeBinding_def Composite_attributeBinding_def deref_def
      ZoomInterpolatedAttribute_value_def Source_new_def Composite_new_def)

subsection \<open>The const member functions\<close>

text \<open>
  Claim C10. \<^verbatim>\<open>attributeBindings\<close> and \<^verbatim>\<open>uniformValues\<close>, and through them
  \<^verbatim>\<open>attributeBinding\<close> and \<^verbatim>\<open>interpolationFactor\<close> of every binder variant, leave the
  state of all binders as it was: after any sequence of such calls that returns, the
  binders (constant or function, default, covering ranges, vertex vector, buffer) are
  those before it, and every call of the sequence returned what the same call returns on
  the initial state, so equal calls return equal results. Const calls between other calls
  do not change where a sequence ends: leaving them out gives the same final state.
  \<^verbatim>\<open>uniformValues\<close> is the interpolation factor of each binder in order, and a call on
  one binder is \<^verbatim>\<open>attributeBinding\<close> of that binder.
\<close>

theorem C10_const_members_leave_state:
  "(list_all is_const_call cs \<and> calls Ps cs binders = Inr (rs, binders') \<longrightarrow>
      binders' = binders
      \<and> map (\<lambda>c. call Ps c binders) cs = map (\<lambda>r. Inr (r, binders)) rs)
   \<and> (calls Ps ds binders = Inr (rs, binders') \<longrightarrow>
        (\<exists>rs'. calls Ps (filter (\<lambda>c. \<not> is_const_call c) ds) binders = Inr (rs', binders')))
   \<and> call Ps (Call_uniformValues currentZoom) binders =
       Inr (Returned_uniforms (map (\<lambda>b. interpolationUniformValue b currentZoom) binders), binders)
   \<and> call [P] (Call_attributeBindings [currentValue]) [bdr] =
       (case attributeBinding P bdr currentValue of
          Inl e \<Rightarrow> Inl e
        | Inr r \<Rightarrow> Inr (Returned_bindings [r], [bdr]))"
proof -
  have "uniformValues binders currentZoom = map (\<lambda>b. interpolationUniformValue b currentZoom) binders"
    by (induction binders) simp_all
  then show ?thesis
    using const_calls_state [of cs Ps binders rs binders']
      const_calls_dropped [of Ps ds binders rs binders']
    by (auto split: sum.splits)
qed

text \<open>
  A composite and a constant binder: three const calls return the factor 0.5 twice and
  the two broadcast bindings, and leave the binders as they were; around a population,
  the const calls do not change the final state.
\<close>

theorem C10_const_members_witness:
  "(let P = \<lparr>defaultValue = (1::int), Attribute_value = (\<lambda>t. t)\<rparr>;
        g = \<lparr>fn_base = 1,
             fn_coveringRanges = (\<lambda>zoom. (Range 10 15, Range () ())),
             fn_evaluate = (\<lambda>stops size d. Range (size * 2) (size * 3))\<rparr>;
        binders = [PaintPropertyBinder_new P (CompositeFn g) 12, PaintPropertyBinder_new P (Constant 4) 12]
          :: (int, int, unit, int) PaintPropertyBinder list;
        cs = [Call_uniformValues 12.5, Call_attributeBindings [Constant 7, SourceFn (SourceFunction (\<lambda>size. None))],
              Call_uniformValues 12.5];
        ds = [Call_uniformValues 12.5, Call_populateVertexVectors 3 2, Call_uniformValues 17]
    in list_all is_const_call cs
       \<and> calls [P, P] cs binders =
           Inr ([Returned_uniforms [0.5, 0],
                 Returned_bindings [ZoomInterpolatedBinding (ConstantBinding (7, 7)),
                                    PlainBinding (ConstantBinding 4)],
                 Returned_uniforms [0.5, 0]], binders)
       \<and> calls [P, P] ds binders =
           Inr ([Returned_uniforms [0.5, 0], Returned_void, Returned_uniforms [7 / 5, 0]],
                populateVertexVectors [P, P] binders 3 2)
       \<and> calls [P, P] (filter (\<lambda>c. \<not> is_const_call c) ds) binders =
           Inr ([Returned_void], populateVertexVectors [P, P] binders 3 2))"
  using C10_const_members_leave_state
    [of "[Call_uniformValues 12.5, Call_attributeBindings [Constant 7, SourceFn (SourceFunction (\<lambda>size. None))],
              Call_uniformValues 12.5]"
        "[\<lparr>defaultValue = (1::int), Attribute_value = (\<lambda>t. t)\<rparr>, \<lparr>defaultValue = (1::int), Attribute_value = (\<lambda>t. t)\<rparr>]"
        "[PaintPropertyBinder_new \<lparr>defaultValue = (1::int), Attribute_value = (\<lambda>t. t)\<rparr>
            (CompositeFn \<lparr>fn_base = 1,
             fn_coveringRanges = (\<lambda>zoom. (Range 10 15, Range () ())),
             fn_evaluate = (\<lambda>stops size d. Range (size * 2) (size * 3))\<rparr>) 12,
          PaintPropertyBinder_new \<lparr>defaultValue = (1::int), Attribute_value = (\<lambda>t. t)\<rparr> (Constant 4) 12]
          :: (int, int, unit, int) PaintPropertyBinder list"]
  by (simp add: Let_def PaintPropertyBinder_new_def Composite_new_def Constant_new_def
      interpolationUniformValue_def Composite_interpolationFactor_def
      Constant_interpolationFactor_def util_interpolationFactor_def attributeBinding_def
      Composite_attributeBinding_def Constant_attributeBinding_def constantOr_def deref_def
      ZoomInterpolatedAttribute_value_def populateVertexVector_def
      Constant_populateVertexVector_def)

end
